theory Spec2Isabelle
  imports Main
begin

section \<open>Data model of \<^verbatim>\<open>BlueskyOauthTest.tsx\<close>\<close>

text \<open>
  The component \<^verbatim>\<open>BlueskyApp\<close> keeps its state in React state cells and talks to three
  external collaborators: the browser OAuth client (\<^verbatim>\<open>client\<close>), the repository API reached
  through an \<^verbatim>\<open>Agent\<close>, and the browser's \<^verbatim>\<open>localStorage\<close>. Every handler is embedded
  as a function from the state before the handler runs to the state after it has settled,
  together with what its promise resolves to (\<open>Inr\<close>) or rejects with (\<open>Inl\<close>).
\<close>

definition LESSON_COLLECTION :: string where
  "LESSON_COLLECTION = ''app.piano.user.lesson''"

text \<open>A thrown JavaScript value; the code only ever reads its \<^verbatim>\<open>message\<close>.\<close>

datatype js_error = JsError (message: "string option")

text \<open>
  \<^verbatim>\<open>OAuthSession\<close>: the code reads \<^verbatim>\<open>session.did\<close> only; the token and key material is
  opaque to it.
\<close>

record OAuthSession =
  did :: string
  credentials :: string

text \<open>
  \<^verbatim>\<open>new Agent(session)\<close> and \<^verbatim>\<open>new Agent({ service })\<close>: an agent is bound either to a
  session or to a bare service URL.
\<close>

datatype Agent = Agent_session OAuthSession | Agent_service string

text \<open>
  \<^verbatim>\<open>interface LessonRecord\<close>. The score is a JavaScript number that the handlers copy and
  never compute with, so its type is a parameter; \<open>notes_opt\<close> is the optional \<^verbatim>\<open>notes\<close>.
\<close>

record 'n LessonRecord =
  lessonId :: string
  completedAt :: string
  score :: 'n
  notes_opt :: "string option"

text \<open>
  The object literal of \<^verbatim>\<open>saveLesson\<close>:
  \<^verbatim>\<open>{ $type: LESSON_COLLECTION, ...lessonData, createdAt: new Date().toISOString() }\<close>,
  the payload's fields extended by the two added ones (\<open>type_tag\<close> is \<^verbatim>\<open>$type\<close>). The
  payload is taken at its declared type, which has neither of the two keys, so the spread
  overwrites no tag.
\<close>

record 'n lesson_body = "'n LessonRecord" +
  type_tag :: string
  createdAt :: string

text \<open>The arguments of the three repository calls.\<close>

record 'n createRecord_input =
  c_repo :: string
  c_collection :: string
  c_record :: "'n lesson_body"

record listRecords_input =
  l_repo :: string
  l_collection :: string
  l_limit :: nat

record deleteRecord_input =
  d_repo :: string
  d_collection :: string
  d_rkey :: string

text \<open>\<^verbatim>\<open>response.data\<close> of \<^verbatim>\<open>createRecord\<close>.\<close>

record createRecord_output =
  out_uri :: string
  out_cid :: string

text \<open>
  One element of \<^verbatim>\<open>response.data.records\<close>. The component types its cache as
  \<^verbatim>\<open>any[]\<close>, so the record value is whatever the server sends: a type parameter.
\<close>

record 'v repo_record =
  uri :: string
  cid :: string
  rec_value :: 'v

text \<open>Every call that leaves the component, in the order issued.\<close>

datatype 'n request =
    Req_init
  | Req_signInPopup string
  | Req_getProfile Agent string
  | Req_createRecord Agent "'n createRecord_input"
  | Req_listRecords Agent listRecords_input
  | Req_deleteRecord Agent deleteRecord_input

text \<open>
  A line written to the console: the label and, for \<^verbatim>\<open>console.error(label, err)\<close>, the
  error logged with it. Objects logged by \<^verbatim>\<open>console.log\<close> are left out.
\<close>

datatype console_line = Console_log string | Console_error string "js_error option"

text \<open>
  The external collaborators. \<open>'s\<close> is the state of everything outside the component
  (the repository server and whatever the OAuth client keeps for itself); each call may
  fail (\<open>Inl\<close>, the thrown value) and may change that state. \<^verbatim>\<open>client.init()\<close> runs in the
  browser and may read \<^verbatim>\<open>localStorage\<close>. \<open>now_toISOString\<close> is
  \<^verbatim>\<open>new Date().toISOString()\<close>.
\<close>

record ('s, 'n, 'v, 'p) api =
  client_init :: "'s \<Rightarrow> (string \<rightharpoonup> string) \<Rightarrow> (js_error + OAuthSession option) \<times> 's"
  client_signInPopup :: "'s \<Rightarrow> string \<Rightarrow> (js_error + OAuthSession) \<times> 's"
  getProfile :: "'s \<Rightarrow> Agent \<Rightarrow> string \<Rightarrow> (js_error + 'p) \<times> 's"
  createRecord :: "'s \<Rightarrow> Agent \<Rightarrow> 'n createRecord_input \<Rightarrow> (js_error + createRecord_output) \<times> 's"
  listRecords :: "'s \<Rightarrow> Agent \<Rightarrow> listRecords_input \<Rightarrow> (js_error + 'v repo_record list) \<times> 's"
  deleteRecord :: "'s \<Rightarrow> Agent \<Rightarrow> deleteRecord_input \<Rightarrow> (js_error + unit) \<times> 's"
  now_toISOString :: "'s \<Rightarrow> string"

text \<open>
  The React state cells of \<^verbatim>\<open>BlueskyApp\<close> (\<open>agent\<close> to \<open>error\<close>; \<open>login_identifier\<close> is \<^verbatim>\<open>identifier\<close>), the browser storage and
  console it writes, the outside world, and the log of calls issued.
\<close>

record ('s, 'n, 'v, 'p) state =
  agent :: "Agent option"
  session :: "OAuthSession option"
  profile :: "'p option"
  lessons :: "'v repo_record list"
  login_identifier :: string
  loading :: bool
  error :: string
  localStorage :: "string \<rightharpoonup> string"
  console :: "console_line list"
  world :: 's
  net_log :: "'n request list"

definition initial_state :: "'s \<Rightarrow> (string \<rightharpoonup> string) \<Rightarrow> ('s, 'n, 'v, 'p) state" where
  "initial_state w ls =
     \<lparr> agent = None, session = None, profile = None, lessons = [],
       login_identifier = ''whoisryosuke.bsky.social'', loading = False, error = [],
       localStorage = ls, console = [], world = w, net_log = [] \<rparr>"

section \<open>Record-key extraction\<close>

text \<open>
  \<^verbatim>\<open>record.uri.split("/").pop()\<close>. \<open>js_split\<close> is \<^verbatim>\<open>String.prototype.split\<close> with a
  one-character separator, scanning left to right with the segment read so far;
  \<open>js_pop\<close> is \<^verbatim>\<open>Array.prototype.pop\<close>, \<^verbatim>\<open>undefined\<close> on the empty array.
\<close>

fun split_from :: "char \<Rightarrow> string \<Rightarrow> string \<Rightarrow> string list" where
  "split_from sep cur [] = [cur]"
| "split_from sep cur (c # cs) =
     (if c = sep then cur # split_from sep [] cs else split_from sep (cur @ [c]) cs)"

definition js_split :: "char \<Rightarrow> string \<Rightarrow> string list" where
  "js_split sep s = split_from sep [] s"

definition js_pop :: "'a list \<Rightarrow> 'a option" where
  "js_pop xs = (if xs = [] then None else Some (last xs))"

definition extract_rkey :: "string \<Rightarrow> string option" where
  "extract_rkey u = js_pop (js_split (CHR ''/'') u)"

section \<open>The handlers\<close>

text \<open>\<^verbatim>\<open>fetchLessons\<close> (lines 149-171).\<close>

definition fetchLessons ::
  "('s, 'n, 'v, 'p) api \<Rightarrow> ('s, 'n, 'v, 'p) state
     \<Rightarrow> (js_error + 'v repo_record list option) \<times> ('s, 'n, 'v, 'p) state" where
  "fetchLessons a st =
     (case (agent st, session st) of
        (Some ag, Some s) \<Rightarrow>
          (let inp = \<lparr> l_repo = did s, l_collection = LESSON_COLLECTION, l_limit = 100 \<rparr>;
               (res, w') = listRecords a (world st) ag inp;
               st1 = st \<lparr> world := w', net_log := net_log st @ [Req_listRecords ag inp] \<rparr>
           in case res of
                Inr recs \<Rightarrow>
                  (Inr (Some recs),
                   st1 \<lparr> console := console st1 @ [Console_log ''Fetched lessons:''],
                         lessons := recs \<rparr>)
              | Inl err \<Rightarrow>
                  (Inl err,
                   st1 \<lparr> console := console st1 @
                           [Console_error ''Error fetching lessons:'' (Some err)] \<rparr>))
      | _ \<Rightarrow> (Inr None, st \<lparr> console := console st @ [Console_error ''Not logged in'' None] \<rparr>))"

text \<open>\<^verbatim>\<open>saveLesson\<close> (lines 116-146).\<close>

definition saveLesson ::
  "('s, 'n, 'v, 'p) api \<Rightarrow> ('s, 'n, 'v, 'p) state \<Rightarrow> 'n LessonRecord
     \<Rightarrow> (js_error + createRecord_output option) \<times> ('s, 'n, 'v, 'p) state" where
  "saveLesson a st lessonData =
     (case (agent st, session st) of
        (Some ag, Some s) \<Rightarrow>
          (let inp = \<lparr> c_repo = did s, c_collection = LESSON_COLLECTION,
                       c_record = \<lparr> lessonId = lessonId lessonData,
                                    completedAt = completedAt lessonData,
                                    score = score lessonData,
                                    notes_opt = notes_opt lessonData,
                                    type_tag = LESSON_COLLECTION,
                                    createdAt = now_toISOString a (world st) \<rparr> \<rparr>;
               (res, w') = createRecord a (world st) ag inp;
               st1 = st \<lparr> world := w', net_log := net_log st @ [Req_createRecord ag inp] \<rparr>
           in case res of
                Inl err \<Rightarrow>
                  (Inl err,
                   st1 \<lparr> console := console st1 @
                           [Console_error ''Error saving lesson:'' (Some err)] \<rparr>)
              | Inr response \<Rightarrow>
                  (let st2 = st1 \<lparr> console := console st1 @
                                     [Console_log ''Lesson saved!'', Console_log ''Record URI:'',
                                      Console_log ''Record CID:''] \<rparr>;
                       (r, st3) = fetchLessons a st2
                   in case r of
                        Inl err \<Rightarrow>
                          (Inl err,
                           st3 \<lparr> console := console st3 @
                                   [Console_error ''Error saving lesson:'' (Some err)] \<rparr>)
                      | Inr _ \<Rightarrow> (Inr (Some response), st3)))
      | _ \<Rightarrow> (Inr None, st \<lparr> console := console st @ [Console_error ''Not logged in'' None] \<rparr>))"

text \<open>
  \<^verbatim>\<open>deleteLesson\<close> (lines 184-198). Its \<^verbatim>\<open>catch\<close> logs and does not rethrow, so the promise
  resolves on every path.
\<close>

definition deleteLesson ::
  "('s, 'n, 'v, 'p) api \<Rightarrow> ('s, 'n, 'v, 'p) state \<Rightarrow> string
     \<Rightarrow> (js_error + unit) \<times> ('s, 'n, 'v, 'p) state" where
  "deleteLesson a st rkey =
     (case (agent st, session st) of
        (Some ag, Some s) \<Rightarrow>
          (let inp = \<lparr> d_repo = did s, d_collection = LESSON_COLLECTION, d_rkey = rkey \<rparr>;
               (res, w') = deleteRecord a (world st) ag inp;
               st1 = st \<lparr> world := w', net_log := net_log st @ [Req_deleteRecord ag inp] \<rparr>
           in case res of
                Inl err \<Rightarrow>
                  (Inr (),
                   st1 \<lparr> console := console st1 @
                           [Console_error ''Error deleting lesson:'' (Some err)] \<rparr>)
              | Inr _ \<Rightarrow>
                  (let (r, st2) = fetchLessons a st1
                   in case r of
                        Inl err \<Rightarrow>
                          (Inr (),
                           st2 \<lparr> console := console st2 @
                                   [Console_error ''Error deleting lesson:'' (Some err)] \<rparr>)
                      | Inr _ \<Rightarrow> (Inr (), st2)))
      | _ \<Rightarrow> (Inr (), st))"

text \<open>
  The Delete button (lines 276-278, 311): the key is taken from the record's locator and
  passed with a non-null assertion (\<^verbatim>\<open>rkey!\<close>); \<open>None\<close> is the assertion broken.
\<close>

definition onClick_delete ::
  "('s, 'n, 'v, 'p) api \<Rightarrow> ('s, 'n, 'v, 'p) state \<Rightarrow> 'v repo_record
     \<Rightarrow> ((js_error + unit) \<times> ('s, 'n, 'v, 'p) state) option" where
  "onClick_delete a st r =
     (case extract_rkey (uri r) of
        Some rkey \<Rightarrow> Some (deleteLesson a st rkey)
      | None \<Rightarrow> None)"

text \<open>
  \<^verbatim>\<open>handleLogout\<close> (lines 103-113), one setter per update, in the source's order.
\<close>

definition handleLogout :: "('s, 'n, 'v, 'p) state \<Rightarrow> ('s, 'n, 'v, 'p) state" where
  "handleLogout st =
     (let st1 = st \<lparr> session := None \<rparr>;
          st2 = st1 \<lparr> agent := None \<rparr>;
          st3 = st2 \<lparr> localStorage := (localStorage st2)(''bsky-session'' := None) \<rparr>;
          newAgent = Agent_service ''https://bsky.social''
      in st3 \<lparr> agent := Some newAgent \<rparr>)"

text \<open>
  \<^verbatim>\<open>handleLogin\<close> (lines 80-100). The module constant \<^verbatim>\<open>client\<close> is never null, so the
  guard on line 82 always passes. \<^verbatim>\<open>err.message || "Login failed"\<close> takes the fallback
  when the message is missing or empty.
\<close>

definition handleLogin :: "('s, 'n, 'v, 'p) api \<Rightarrow> ('s, 'n, 'v, 'p) state \<Rightarrow> ('s, 'n, 'v, 'p) state" where
  "handleLogin a st =
     (let st1 = st \<lparr> loading := True, error := [] \<rparr>;
          (res, w') = client_signInPopup a (world st1) (login_identifier st);
          st2 = st1 \<lparr> world := w', net_log := net_log st1 @ [Req_signInPopup (login_identifier st)] \<rparr>;
          st3 = (case res of
                   Inr s \<Rightarrow>
                     st2 \<lparr> agent := Some (Agent_session s),
                           console := console st2 @ [Console_log ''got oauth session''],
                           session := Some s \<rparr>
                 | Inl err \<Rightarrow>
                     st2 \<lparr> error := (case message err of
                                       None \<Rightarrow> ''Login failed''
                                     | Some m \<Rightarrow> if m = [] then ''Login failed'' else m),
                           console := console st2 @ [Console_error ''Login error:'' (Some err)] \<rparr>)
      in st3 \<lparr> loading := False \<rparr>)"

text \<open>
  \<^verbatim>\<open>initAuth\<close> (lines 58-75). The function is created inside an effect, so the \<^verbatim>\<open>agent\<close>
  it tests on line 66 is the value of the render that created the effect: the argument
  \<open>closure_agent\<close>, not the cell \<^verbatim>\<open>createAgent\<close> has just set. The profile request goes
  through that same captured agent.
\<close>

definition initAuth ::
  "('s, 'n, 'v, 'p) api \<Rightarrow> Agent option \<Rightarrow> ('s, 'n, 'v, 'p) state \<Rightarrow> ('s, 'n, 'v, 'p) state" where
  "initAuth a closure_agent st =
     (let (res, w') = client_init a (world st) (localStorage st);
          st1 = st \<lparr> world := w', net_log := net_log st @ [Req_init] \<rparr>
      in case res of
           Inl err \<Rightarrow>
             st1 \<lparr> console := console st1 @
                     [Console_error ''Auth initialization failed:'' (Some err)] \<rparr>
         | Inr None \<Rightarrow> st1
         | Inr (Some s) \<Rightarrow>
             (let st2 = st1 \<lparr> agent := Some (Agent_session s) \<rparr>;
                  st3 = st2 \<lparr> session := Some s \<rparr>
              in case closure_agent of
                   None \<Rightarrow> st3
                 | Some ag \<Rightarrow>
                     (let (pres, w'') = getProfile a (world st3) ag (did s);
                          st4 = st3 \<lparr> world := w'',
                                      net_log := net_log st3 @ [Req_getProfile ag (did s)] \<rparr>
                      in case pres of
                           Inr p \<Rightarrow> st4 \<lparr> profile := Some p \<rparr>
                         | Inl err \<Rightarrow>
                             st4 \<lparr> console := console st4 @
                                     [Console_error ''Auth initialization failed:'' (Some err)] \<rparr>)))"

text \<open>
  \<^verbatim>\<open>useEffect(() => { ... initAuth() }, [])\<close> (lines 56-77): with the empty dependency list
  the effect is created by the first render only, whose cells hold the \<^verbatim>\<open>useState\<close>
  initial values.
\<close>

definition useEffect_mount :: "('s, 'n, 'v, 'p) api \<Rightarrow> ('s, 'n, 'v, 'p) state \<Rightarrow> ('s, 'n, 'v, 'p) state" where
  "useEffect_mount a first_render = initAuth a (agent first_render) first_render"

definition BlueskyApp_mount ::
  "('s, 'n, 'v, 'p) api \<Rightarrow> 's \<Rightarrow> (string \<rightharpoonup> string) \<Rightarrow> ('s, 'n, 'v, 'p) state" where
  "BlueskyApp_mount a w ls = useEffect_mount a (initial_state w ls)"

section \<open>Observing a handler\<close>

text \<open>
  The calls a handler issued: what it appended to the log between the state it started
  from and the state it left.
\<close>

definition issued :: "('s, 'n, 'v, 'p) state \<Rightarrow> ('s, 'n, 'v, 'p) state \<Rightarrow> 'n request list" where
  "issued st st' = drop (length (net_log st)) (net_log st')"

text \<open>
  Shorthand for the argument objects the handlers build (lines 124-132, 157-161 and
  188-192), for a session \<open>s\<close>.
\<close>

abbreviation createRecord_args ::
  "('s, 'n, 'v, 'p) api \<Rightarrow> ('s, 'n, 'v, 'p) state \<Rightarrow> OAuthSession \<Rightarrow> 'n LessonRecord
     \<Rightarrow> 'n createRecord_input" where
  "createRecord_args a st s p \<equiv>
     \<lparr> c_repo = did s, c_collection = LESSON_COLLECTION,
       c_record = \<lparr> lessonId = lessonId p, completedAt = completedAt p, score = score p,
                    notes_opt = notes_opt p, type_tag = LESSON_COLLECTION,
                    createdAt = now_toISOString a (world st) \<rparr> \<rparr>"

abbreviation listRecords_args :: "OAuthSession \<Rightarrow> listRecords_input" where
  "listRecords_args s \<equiv> \<lparr> l_repo = did s, l_collection = LESSON_COLLECTION, l_limit = 100 \<rparr>"

abbreviation deleteRecord_args :: "OAuthSession \<Rightarrow> string \<Rightarrow> deleteRecord_input" where
  "deleteRecord_args s rkey \<equiv>
     \<lparr> d_repo = did s, d_collection = LESSON_COLLECTION, d_rkey = rkey \<rparr>"

text \<open>
  The states the component can be in: mounted, then any sequence of handler runs (each
  taken to settle before the next starts) and of edits of the identifier field.
\<close>

inductive reachable :: "('s, 'n, 'v, 'p) api \<Rightarrow> ('s, 'n, 'v, 'p) state \<Rightarrow> bool"
  for a :: "('s, 'n, 'v, 'p) api" where
  mount: "reachable a (BlueskyApp_mount a w ls)"
| login: "reachable a st \<Longrightarrow> reachable a (handleLogin a st)"
| logout: "reachable a st \<Longrightarrow> reachable a (handleLogout st)"
| save: "reachable a st \<Longrightarrow> reachable a (snd (saveLesson a st p))"
| fetch: "reachable a st \<Longrightarrow> reachable a (snd (fetchLessons a st))"
| delete: "reachable a st \<Longrightarrow> reachable a (snd (deleteLesson a st rkey))"
| setIdentifier: "reachable a st \<Longrightarrow> reachable a (st \<lparr> login_identifier := v \<rparr>)"

section \<open>A test double of the collaborators\<close>

text \<open>
  To run the handlers on concrete inputs: a repository holding one ordered collection, an
  OAuth client that keeps the session it issued in a store of its own, and a script of
  faults. Every call consumes the next flag of the script and fails when the flag is set;
  an exhausted script means no fault.
\<close>

record mock_world =
  pds :: "int lesson_body repo_record list"
  oauth_store :: "OAuthSession option"
  faults :: "bool list"

definition unavailable :: js_error where
  "unavailable = JsError (Some ''network error'')"

definition faulty :: "mock_world \<Rightarrow> bool" where
  "faulty w = (case faults w of [] \<Rightarrow> False | f # _ \<Rightarrow> f)"

definition next_call :: "mock_world \<Rightarrow> mock_world" where
  "next_call w = w \<lparr> faults := tl (faults w) \<rparr>"

definition locator :: "string \<Rightarrow> string \<Rightarrow> string \<Rightarrow> string" where
  "locator owner namespace rkey = ''at://'' @ owner @ ''/'' @ namespace @ ''/'' @ rkey"

definition mock_api :: "(mock_world, int, int lesson_body, string) api" where
  "mock_api =
     \<lparr> client_init = (\<lambda>w ls.
         if faulty w then (Inl unavailable, next_call w)
         else (Inr (oauth_store w), next_call w)),
       client_signInPopup = (\<lambda>w handle.
         if faulty w then (Inl unavailable, next_call w)
         else (let s = \<lparr> did = ''did:plc:xyz'', credentials = handle \<rparr>
               in (Inr s, (next_call w) \<lparr> oauth_store := Some s \<rparr>))),
       getProfile = (\<lambda>w ag actor.
         if faulty w then (Inl unavailable, next_call w)
         else (Inr actor, next_call w)),
       createRecord = (\<lambda>w ag inp.
         if faulty w then (Inl unavailable, next_call w)
         else (let rkey = ''k'' @ replicate (length (pds w)) (CHR ''i'');
                   r = \<lparr> uri = locator (c_repo inp) (c_collection inp) rkey,
                         cid = ''cid-'' @ rkey, rec_value = c_record inp \<rparr>
               in (Inr \<lparr> out_uri = uri r, out_cid = cid r \<rparr>,
                   (next_call w) \<lparr> pds := pds w @ [r] \<rparr>))),
       listRecords = (\<lambda>w ag inp.
         if faulty w then (Inl unavailable, next_call w)
         else (Inr (take (l_limit inp) (pds w)), next_call w)),
       deleteRecord = (\<lambda>w ag inp.
         if faulty w then (Inl unavailable, next_call w)
         else (Inr (),
               (next_call w) \<lparr> pds := filter
                  (\<lambda>r. uri r \<noteq> locator (d_repo inp) (d_collection inp) (d_rkey inp)) (pds w) \<rparr>)),
       now_toISOString = (\<lambda>w. ''2024-01-01T00:00:00.000Z'') \<rparr>"

text \<open>Concrete inputs: a session, a payload, a stored record and its locator.\<close>

definition s0 :: OAuthSession where
  "s0 = \<lparr> did = ''did123'', credentials = ''dpop-key-1'' \<rparr>"

definition p0 :: "int LessonRecord" where
  "p0 = \<lparr> lessonId = ''lesson-1'', completedAt = ''2024-01-01T00:00:00Z'', score = 87,
          notes_opt = None \<rparr>"

definition r0 :: "int lesson_body repo_record" where
  "r0 = \<lparr> uri = ''at://did123/app.piano.user.lesson/abc789'', cid = ''cid-abc789'',
          rec_value = \<lparr> lessonId = ''lesson-1'', completedAt = ''2024-01-01T00:00:00Z'',
                        score = 87, notes_opt = None,
                        type_tag = ''app.piano.user.lesson'',
                        createdAt = ''2024-01-01T00:00:00.000Z'' \<rparr> \<rparr>"

text \<open>
  A world in which the OAuth client holds \<open>s0\<close> and the repository holds \<open>r0\<close>, with the
  given script of faults; and the component mounted in it with an empty \<^verbatim>\<open>localStorage\<close>.
\<close>

definition w0 :: "bool list \<Rightarrow> mock_world" where
  "w0 fs = \<lparr> pds = [r0], oauth_store = Some s0, faults = fs \<rparr>"

definition mounted :: "bool list \<Rightarrow> (mock_world, int, int lesson_body, string) state" where
  "mounted fs = BlueskyApp_mount mock_api (w0 fs) Map.empty"

text \<open>The mounted component after one press of Refresh Lessons.\<close>

definition loaded :: "bool list \<Rightarrow> (mock_world, int, int lesson_body, string) state" where
  "loaded fs = snd (fetchLessons mock_api (mounted fs))"

text \<open>
  A first visit: nothing stored anywhere, the component mounted, and the login form
  submitted with the identifier it shows.
\<close>

definition signed_in :: "(mock_world, int, int lesson_body, string) state" where
  "signed_in =
     handleLogin mock_api
       (BlueskyApp_mount mock_api \<lparr> pds = [], oauth_store = None, faults = [] \<rparr> Map.empty)"

section \<open>Auxiliary facts\<close>

lemmas handler_defs = fetchLessons_def saveLesson_def deleteLesson_def issued_def

lemmas mock_defs = loaded_def mounted_def BlueskyApp_mount_def useEffect_mount_def
  initAuth_def initial_state_def mock_api_def w0_def faulty_def next_call_def s0_def p0_def
  r0_def locator_def unavailable_def LESSON_COLLECTION_def Let_def

subsection \<open>Splitting\<close>

lemma split_from_no_sep: "sep \<notin> set k \<Longrightarrow> split_from sep cur k = [cur @ k]"
  by (induction k arbitrary: cur) auto

lemma split_from_nonempty: "split_from sep cur s \<noteq> []"
  by (induction s arbitrary: cur) auto

lemma last_split_from: "sep \<notin> set k \<Longrightarrow> last (split_from sep cur (p @ sep # k)) = k"
  by (induction p arbitrary: cur) (auto simp: split_from_no_sep split_from_nonempty)

text \<open>\<^verbatim>\<open>split\<close> never yields the empty array, so \<^verbatim>\<open>pop\<close> always finds a segment.\<close>

lemma extract_rkey_defined: "\<exists>k. extract_rkey u = Some k"
  by (simp add: extract_rkey_def js_pop_def js_split_def split_from_nonempty)

lemma extract_rkey_final: "CHR ''/'' \<notin> set k \<Longrightarrow> extract_rkey (p @ ''/'' @ k) = Some k"
  using last_split_from [of "CHR ''/''" k "[]" p]
  by (simp add: extract_rkey_def js_pop_def js_split_def split_from_nonempty)

subsection \<open>The session and the agent go together\<close>

lemma fetchLessons_cells:
  "agent (snd (fetchLessons a st)) = agent st \<and> session (snd (fetchLessons a st)) = session st
   \<and> profile (snd (fetchLessons a st)) = profile st"
  by (simp add: fetchLessons_def Let_def split: option.splits prod.splits sum.splits)

lemma saveLesson_cells:
  "agent (snd (saveLesson a st p)) = agent st \<and> session (snd (saveLesson a st p)) = session st
   \<and> profile (snd (saveLesson a st p)) = profile st"
  by (simp add: saveLesson_def fetchLessons_def Let_def
      split: option.splits prod.splits sum.splits)

lemma deleteLesson_cells:
  "agent (snd (deleteLesson a st k)) = agent st \<and> session (snd (deleteLesson a st k)) = session st
   \<and> profile (snd (deleteLesson a st k)) = profile st"
  by (simp add: deleteLesson_def fetchLessons_def Let_def
      split: option.splits prod.splits sum.splits)

text \<open>
  In every reachable state a session is held together with the agent built from it, so
  the guard \<^verbatim>\<open>!agent || !session\<close> passes exactly when a session is present there.
\<close>

lemma reachable_session_agent:
  "reachable a st \<Longrightarrow> session st = Some s \<Longrightarrow> agent st = Some (Agent_session s)"
proof (induction arbitrary: s rule: reachable.induct)
  case (mount w ls)
  then show ?case
    by (auto simp: BlueskyApp_mount_def useEffect_mount_def initAuth_def initial_state_def
        Let_def split: prod.splits sum.splits option.splits)
next
  case (login st)
  then show ?case
    by (auto simp: handleLogin_def Let_def split: prod.splits sum.splits)
next
  case (logout st)
  then show ?case by (simp add: handleLogout_def)
next
  case (save st p)
  then show ?case by (simp add: saveLesson_cells)
next
  case (fetch st)
  then show ?case by (simp add: fetchLessons_cells)
next
  case (delete st rkey)
  then show ?case by (simp add: deleteLesson_cells)
next
  case (setIdentifier st v)
  then show ?case by simp
qed

text \<open>No handler but the unreachable branch of \<^verbatim>\<open>initAuth\<close> writes the profile.\<close>

lemma reachable_profile_unset: "reachable a st \<Longrightarrow> profile st = None"
proof (induction rule: reachable.induct)
  case (mount w ls)
  show ?case
    by (simp add: BlueskyApp_mount_def useEffect_mount_def initAuth_def initial_state_def
        Let_def split: prod.splits sum.splits option.splits)
next
  case (login st)
  then show ?case
    by (simp add: handleLogin_def Let_def split: prod.splits sum.splits)
next
  case (logout st)
  then show ?case by (simp add: handleLogout_def)
next
  case (save st p)
  then show ?case by (simp add: saveLesson_cells)
next
  case (fetch st)
  then show ?case by (simp add: fetchLessons_cells)
next
  case (delete st rkey)
  then show ?case by (simp add: deleteLesson_cells)
next
  case (setIdentifier st v)
  then show ?case by simp
qed

text \<open>
  Had the effect captured an agent, \<^verbatim>\<open>initAuth\<close> would go on to request the profile
  through it and store the answer.
\<close>

lemma initAuth_with_captured_agent:
  assumes "client_init a (world st) (localStorage st) = (Inr (Some s), w1)"
    and "getProfile a w1 ag (did s) = (Inr p, w2)"
  shows "profile (initAuth a (Some ag) st) = Some p
       \<and> issued st (initAuth a (Some ag) st) = [Req_init, Req_getProfile ag (did s)]"
  using assms by (simp add: initAuth_def issued_def)

text \<open>The test double at work: mounting resumes \<open>s0\<close>, Refresh Lessons loads \<open>r0\<close>.\<close>

lemma mounted_session:
  "agent (mounted (False # fs)) = Some (Agent_session s0)
   \<and> session (mounted (False # fs)) = Some s0"
  by (simp add: mock_defs)

lemma loaded_session:
  "agent (loaded (False # fs)) = Some (Agent_session s0)
   \<and> session (loaded (False # fs)) = Some s0"
  using mounted_session [of fs] by (simp add: loaded_def fetchLessons_cells)

lemma loaded_reachable: "reachable mock_api (loaded fs)"
  unfolding loaded_def mounted_def by (intro reachable.fetch reachable.mount)

section \<open>The claims\<close>

subsection \<open>C1: operations without a session\<close>




subsection \<open>C2: the cache after a mutation\<close>

text \<open>
  Claim C2, as the code has it. With a session held: when the create-record request
  succeeds and the list-records request that \<^verbatim>\<open>saveLesson\<close> issues next succeeds, the
  operation resolves with the create response and the cache is exactly the records that
  list returned; \<^verbatim>\<open>saveLesson\<close> resolves with a response in no other case. When the
  delete-record request succeeds and the list-records request that \<^verbatim>\<open>deleteLesson\<close> issues
  next succeeds, the cache is exactly the records that list returned. In both cases the
  operation issues the mutation and then the list, and nothing else. When the mutation
  succeeds and the list after it fails, the cache keeps the value it had (and
  \<^verbatim>\<open>saveLesson\<close> rejects with the error of the list).
\<close>

theorem cache_is_refresh_result:
  assumes "agent st = Some ag" and "session st = Some s"
  shows "(\<forall>resp w1 recs w2.
            createRecord a (world st) ag (createRecord_args a st s p) = (Inr resp, w1)
            \<and> listRecords a w1 ag (listRecords_args s) = (Inr recs, w2)
            \<longrightarrow> fst (saveLesson a st p) = Inr (Some resp)
              \<and> lessons (snd (saveLesson a st p)) = recs
              \<and> issued st (snd (saveLesson a st p)) =
                  [Req_createRecord ag (createRecord_args a st s p),
                   Req_listRecords ag (listRecords_args s)])
       \<and> (\<forall>resp. fst (saveLesson a st p) = Inr (Some resp)
            \<longrightarrow> (\<exists>w1 w2.
                  createRecord a (world st) ag (createRecord_args a st s p) = (Inr resp, w1)
                  \<and> listRecords a w1 ag (listRecords_args s)
                      = (Inr (lessons (snd (saveLesson a st p))), w2)))
       \<and> (\<forall>u w1 recs w2.
            deleteRecord a (world st) ag (deleteRecord_args s rkey) = (Inr u, w1)
            \<and> listRecords a w1 ag (listRecords_args s) = (Inr recs, w2)
            \<longrightarrow> lessons (snd (deleteLesson a st rkey)) = recs
              \<and> issued st (snd (deleteLesson a st rkey)) =
                  [Req_deleteRecord ag (deleteRecord_args s rkey),
                   Req_listRecords ag (listRecords_args s)])
       \<and> (\<forall>resp w1 e w2.
            createRecord a (world st) ag (createRecord_args a st s p) = (Inr resp, w1)
            \<and> listRecords a w1 ag (listRecords_args s) = (Inl e, w2)
            \<longrightarrow> fst (saveLesson a st p) = Inl e
              \<and> lessons (snd (saveLesson a st p)) = lessons st)
       \<and> (\<forall>u w1 e w2.
            deleteRecord a (world st) ag (deleteRecord_args s rkey) = (Inr u, w1)
            \<and> listRecords a w1 ag (listRecords_args s) = (Inl e, w2)
            \<longrightarrow> lessons (snd (deleteLesson a st rkey)) = lessons st)"
proof (intro conjI allI impI)
  fix resp w1 recs w2
  assume "createRecord a (world st) ag (createRecord_args a st s p) = (Inr resp, w1)
          \<and> listRecords a w1 ag (listRecords_args s) = (Inr recs, w2)"
  with assms show "fst (saveLesson a st p) = Inr (Some resp)"
    and "lessons (snd (saveLesson a st p)) = recs"
    and "issued st (snd (saveLesson a st p)) =
           [Req_createRecord ag (createRecord_args a st s p),
            Req_listRecords ag (listRecords_args s)]"
    by (simp_all add: handler_defs)
next
  fix resp
  assume "fst (saveLesson a st p) = Inr (Some resp)"
  with assms show "\<exists>w1 w2.
      createRecord a (world st) ag (createRecord_args a st s p) = (Inr resp, w1)
      \<and> listRecords a w1 ag (listRecords_args s)
          = (Inr (lessons (snd (saveLesson a st p))), w2)"
    by (auto simp: handler_defs Let_def split: prod.splits sum.splits)
next
  fix u w1 recs w2
  assume "deleteRecord a (world st) ag (deleteRecord_args s rkey) = (Inr u, w1)
          \<and> listRecords a w1 ag (listRecords_args s) = (Inr recs, w2)"
  with assms show "lessons (snd (deleteLesson a st rkey)) = recs"
    and "issued st (snd (deleteLesson a st rkey)) =
           [Req_deleteRecord ag (deleteRecord_args s rkey),
            Req_listRecords ag (listRecords_args s)]"
    by (simp_all add: handler_defs)
next
  fix resp w1 e w2
  assume "createRecord a (world st) ag (createRecord_args a st s p) = (Inr resp, w1)
          \<and> listRecords a w1 ag (listRecords_args s) = (Inl e, w2)"
  with assms show "fst (saveLesson a st p) = Inl e"
    and "lessons (snd (saveLesson a st p)) = lessons st"
    by (simp_all add: handler_defs)
next
  fix u w1 e w2
  assume "deleteRecord a (world st) ag (deleteRecord_args s rkey) = (Inr u, w1)
          \<and> listRecords a w1 ag (listRecords_args s) = (Inl e, w2)"
  with assms show "lessons (snd (deleteLesson a st rkey)) = lessons st"
    by (simp add: handler_defs)
qed

text \<open>
  With no fault: saving \<open>p0\<close> leaves the cache holding \<open>r0\<close> and the new record, as the
  repository does; deleting \<open>r0\<close> by its key leaves the cache empty.
\<close>

theorem cache_is_refresh_result_witness:
  "agent (loaded []) = Some (Agent_session s0) \<and> session (loaded []) = Some s0
   \<and> lessons (loaded []) = [r0]
   \<and> fst (createRecord mock_api (world (loaded [])) (Agent_session s0)
            (createRecord_args mock_api (loaded []) s0 p0))
       = Inr \<lparr> out_uri = ''at://did123/app.piano.user.lesson/ki'', out_cid = ''cid-ki'' \<rparr>
   \<and> fst (saveLesson mock_api (loaded []) p0)
       = Inr (Some \<lparr> out_uri = ''at://did123/app.piano.user.lesson/ki'',
                      out_cid = ''cid-ki'' \<rparr>)
   \<and> lessons (snd (saveLesson mock_api (loaded []) p0))
       = pds (world (snd (saveLesson mock_api (loaded []) p0)))
   \<and> map uri (lessons (snd (saveLesson mock_api (loaded []) p0)))
       = [''at://did123/app.piano.user.lesson/abc789'', ''at://did123/app.piano.user.lesson/ki'']
   \<and> fst (deleteRecord mock_api (world (loaded [])) (Agent_session s0)
            (deleteRecord_args s0 ''abc789'')) = Inr ()
   \<and> lessons (snd (deleteLesson mock_api (loaded []) ''abc789'')) = []"
proof -
  have ag: "agent (loaded []) = Some (Agent_session s0)"
    and se: "session (loaded []) = Some s0"
    by (simp_all add: mock_defs fetchLessons_def)
  show ?thesis
    using ag se cache_is_refresh_result [OF ag se, of mock_api p0 "''abc789''"]
    by (simp add: mock_defs handler_defs)
qed

text \<open>
  The claim as stated fails where the refresh fails after an acknowledged delete. The
  cache holds \<open>r0\<close>; the delete-record request for its key succeeds, the list-records
  request after it fails; \<^verbatim>\<open>deleteLesson\<close> resolves all the same, the cache still holds
  \<open>r0\<close>, and a list issued right after returns no record.
\<close>

theorem stale_cache_after_acknowledged_delete:
  "lessons (loaded [False, False, False, True]) = [r0]
   \<and> fst (deleteRecord mock_api (world (loaded [False, False, False, True]))
            (Agent_session s0) (deleteRecord_args s0 ''abc789'')) = Inr ()
   \<and> fst (deleteLesson mock_api (loaded [False, False, False, True]) ''abc789'') = Inr ()
   \<and> lessons (snd (deleteLesson mock_api (loaded [False, False, False, True]) ''abc789''))
       = [r0]
   \<and> pds (world (snd (deleteLesson mock_api (loaded [False, False, False, True]) ''abc789'')))
       = []
   \<and> fst (fetchLessons mock_api
            (snd (deleteLesson mock_api (loaded [False, False, False, True]) ''abc789'')))
       = Inr (Some [])"
  by (simp add: mock_defs handler_defs)

subsection \<open>C3: a failed delete\<close>

text \<open>
  Claim C3 asks that a failed delete be raised to the caller. \<^verbatim>\<open>deleteLesson\<close> does not:
  its \<^verbatim>\<open>catch\<close> only logs, where those of \<^verbatim>\<open>saveLesson\<close> and \<^verbatim>\<open>fetchLessons\<close> log and
  rethrow. Here the cache holds \<open>r0\<close> and the delete-record request fails with
  \<open>unavailable\<close>: the promise resolves, the cache is unchanged, and the cause reaches the
  console only.
\<close>

theorem deleteLesson_swallows_failure:
  "lessons (loaded [False, False, True]) = [r0]
   \<and> fst (deleteRecord mock_api (world (loaded [False, False, True]))
            (Agent_session s0) (deleteRecord_args s0 ''abc789'')) = Inl unavailable
   \<and> fst (deleteLesson mock_api (loaded [False, False, True]) ''abc789'') = Inr ()
   \<and> lessons (snd (deleteLesson mock_api (loaded [False, False, True]) ''abc789'')) = [r0]
   \<and> last (console (snd (deleteLesson mock_api (loaded [False, False, True]) ''abc789'')))
       = Console_error ''Error deleting lesson:'' (Some unavailable)
   \<and> issued (loaded [False, False, True])
        (snd (deleteLesson mock_api (loaded [False, False, True]) ''abc789''))
       = [Req_deleteRecord (Agent_session s0) (deleteRecord_args s0 ''abc789'')]"
  by (simp add: mock_defs handler_defs)

subsection \<open>C4: the record key of a locator\<close>

text \<open>
  Claim C4. For every locator \<open>scheme://owner/namespace/key\<close> whose key holds no \<open>/\<close>,
  splitting on \<open>/\<close> and taking the last segment yields the key; for
  \<open>at://did123/app.piano.user.lesson/abc789\<close> it yields \<open>abc789\<close>.
\<close>

theorem extract_rkey_final_segment:
  "(CHR ''/'' \<notin> set key \<longrightarrow>
      extract_rkey (scheme @ ''://'' @ owner @ ''/'' @ namespace @ ''/'' @ key) = Some key)
   \<and> extract_rkey ''at://did123/app.piano.user.lesson/abc789'' = Some ''abc789''"
proof -
  have "extract_rkey ((scheme @ ''://'' @ owner @ ''/'' @ namespace) @ ''/'' @ key) = Some key"
    if "CHR ''/'' \<notin> set key"
    using that by (rule extract_rkey_final)
  moreover
  have "extract_rkey (''at://did123/app.piano.user.lesson'' @ ''/'' @ ''abc789'') = Some ''abc789''"
    by (rule extract_rkey_final) simp
  ultimately show ?thesis by simp
qed

theorem extract_rkey_final_segment_witness:
  "CHR ''/'' \<notin> set ''3kabc''
   \<and> extract_rkey (''at'' @ ''://'' @ ''did:plc:xyz'' @ ''/'' @ ''app.piano.user.lesson''
                      @ ''/'' @ ''3kabc'') = Some ''3kabc''"
  using extract_rkey_final_segment
    [of "''3kabc''" "''at''" "''did:plc:xyz''" "''app.piano.user.lesson''"]
  by simp

subsection \<open>C5: the record written by a create\<close>

text \<open>
  Claim C5. With a session held, \<^verbatim>\<open>saveLesson\<close> calls create-record through the held
  agent, addressed to the session's DID and the collection namespace, with a body made of
  the payload's four fields, the tag \<^verbatim>\<open>$type\<close> equal to the namespace, and \<^verbatim>\<open>createdAt\<close>
  equal to the ISO time string read when the handler starts. That request is the first
  the handler issues, and what the handler leaves of the outside world and what its
  promise settles with are what that very call gives: the world the call leaves (passed
  through the refresh when the call succeeds), and its error or its response.
\<close>

theorem saveLesson_record_body:
  assumes "agent st = Some ag" and "session st = Some s"
  shows "take 1 (issued st (snd (saveLesson a st p))) =
           [Req_createRecord ag
              \<lparr> c_repo = did s, c_collection = LESSON_COLLECTION,
                c_record = \<lparr> lessonId = lessonId p, completedAt = completedAt p,
                             score = score p, notes_opt = notes_opt p,
                             type_tag = LESSON_COLLECTION,
                             createdAt = now_toISOString a (world st) \<rparr> \<rparr>]
       \<and> world (snd (saveLesson a st p)) =
           (case createRecord a (world st) ag
                   \<lparr> c_repo = did s, c_collection = LESSON_COLLECTION,
                     c_record = \<lparr> lessonId = lessonId p, completedAt = completedAt p,
                                  score = score p, notes_opt = notes_opt p,
                                  type_tag = LESSON_COLLECTION,
                                  createdAt = now_toISOString a (world st) \<rparr> \<rparr> of
              (Inl e, w1) \<Rightarrow> w1
            | (Inr resp, w1) \<Rightarrow> snd (listRecords a w1 ag (listRecords_args s)))
       \<and> fst (saveLesson a st p) =
           (case createRecord a (world st) ag
                   \<lparr> c_repo = did s, c_collection = LESSON_COLLECTION,
                     c_record = \<lparr> lessonId = lessonId p, completedAt = completedAt p,
                                  score = score p, notes_opt = notes_opt p,
                                  type_tag = LESSON_COLLECTION,
                                  createdAt = now_toISOString a (world st) \<rparr> \<rparr> of
              (Inl e, w1) \<Rightarrow> Inl e
            | (Inr resp, w1) \<Rightarrow>
                (case fst (listRecords a w1 ag (listRecords_args s)) of
                   Inl e \<Rightarrow> Inl e
                 | Inr recs \<Rightarrow> Inr (Some resp)))
       \<and> LESSON_COLLECTION = ''app.piano.user.lesson''"
proof (intro conjI)
  show "take 1 (issued st (snd (saveLesson a st p))) =
          [Req_createRecord ag
             \<lparr> c_repo = did s, c_collection = LESSON_COLLECTION,
               c_record = \<lparr> lessonId = lessonId p, completedAt = completedAt p,
                            score = score p, notes_opt = notes_opt p,
                            type_tag = LESSON_COLLECTION,
                            createdAt = now_toISOString a (world st) \<rparr> \<rparr>]"
    using assms by (simp add: handler_defs Let_def split: prod.splits sum.splits)
  show "world (snd (saveLesson a st p)) =
           (case createRecord a (world st) ag (createRecord_args a st s p) of
              (Inl e, w1) \<Rightarrow> w1
            | (Inr resp, w1) \<Rightarrow> snd (listRecords a w1 ag (listRecords_args s)))"
    using assms by (simp add: handler_defs Let_def split: prod.splits sum.splits)
  show "fst (saveLesson a st p) =
           (case createRecord a (world st) ag (createRecord_args a st s p) of
              (Inl e, w1) \<Rightarrow> Inl e
            | (Inr resp, w1) \<Rightarrow>
                (case fst (listRecords a w1 ag (listRecords_args s)) of
                   Inl e \<Rightarrow> Inl e
                 | Inr recs \<Rightarrow> Inr (Some resp)))"
    using assms by (simp add: handler_defs Let_def split: prod.splits sum.splits)
  show "LESSON_COLLECTION = ''app.piano.user.lesson''"
    by (simp add: LESSON_COLLECTION_def)
qed

text \<open>
  Saving \<open>p0\<close> in a repository that holds \<open>r0\<close>: the repository then holds \<open>r0\<close> and a
  record whose value is the payload with the tag and the creation time.
\<close>

theorem saveLesson_record_body_witness:
  "agent (mounted []) = Some (Agent_session s0) \<and> session (mounted []) = Some s0
   \<and> pds (world (mounted [])) = [r0]
   \<and> take 1 (issued (mounted []) (snd (saveLesson mock_api (mounted []) p0))) =
       [Req_createRecord (Agent_session s0)
          \<lparr> c_repo = ''did123'', c_collection = ''app.piano.user.lesson'',
            c_record = \<lparr> lessonId = ''lesson-1'', completedAt = ''2024-01-01T00:00:00Z'',
                         score = 87, notes_opt = None,
                         type_tag = ''app.piano.user.lesson'',
                         createdAt = ''2024-01-01T00:00:00.000Z'' \<rparr> \<rparr>]
   \<and> pds (world (snd (saveLesson mock_api (mounted []) p0))) =
       [r0,
        \<lparr> uri = ''at://did123/app.piano.user.lesson/ki'', cid = ''cid-ki'',
          rec_value = \<lparr> lessonId = ''lesson-1'', completedAt = ''2024-01-01T00:00:00Z'',
                        score = 87, notes_opt = None,
                        type_tag = ''app.piano.user.lesson'',
                        createdAt = ''2024-01-01T00:00:00.000Z'' \<rparr> \<rparr>]
   \<and> fst (saveLesson mock_api (mounted []) p0) =
       Inr (Some \<lparr> out_uri = ''at://did123/app.piano.user.lesson/ki'', out_cid = ''cid-ki'' \<rparr>)"
proof -
  have ag: "agent (mounted []) = Some (Agent_session s0)"
    and se: "session (mounted []) = Some s0"
    and wo: "world (mounted []) = w0 []"
    by (simp_all add: mock_defs)
  have now: "now_toISOString mock_api w = ''2024-01-01T00:00:00.000Z''" for w
    by (simp add: mock_api_def)
  note th = saveLesson_record_body [OF ag se, of mock_api p0]
  have cr: "createRecord mock_api (w0 []) (Agent_session s0)
              \<lparr> c_repo = ''did123'', c_collection = ''app.piano.user.lesson'',
                c_record = \<lparr> lessonId = ''lesson-1'', completedAt = ''2024-01-01T00:00:00Z'',
                             score = 87, notes_opt = None,
                             type_tag = ''app.piano.user.lesson'',
                             createdAt = ''2024-01-01T00:00:00.000Z'' \<rparr> \<rparr>
            = (Inr \<lparr> out_uri = ''at://did123/app.piano.user.lesson/ki'', out_cid = ''cid-ki'' \<rparr>,
               \<lparr> pds = [r0,
                  \<lparr> uri = ''at://did123/app.piano.user.lesson/ki'', cid = ''cid-ki'',
                    rec_value = \<lparr> lessonId = ''lesson-1'',
                                  completedAt = ''2024-01-01T00:00:00Z'',
                                  score = 87, notes_opt = None,
                                  type_tag = ''app.piano.user.lesson'',
                                  createdAt = ''2024-01-01T00:00:00.000Z'' \<rparr> \<rparr>],
                 oauth_store = Some s0, faults = [] \<rparr>)"
    by (simp add: mock_api_def w0_def faulty_def next_call_def locator_def Let_def)
  have li: "listRecords mock_api \<lparr> pds = xs, oauth_store = o1, faults = [] \<rparr> ag1 inp
            = (Inr (take (l_limit inp) xs), \<lparr> pds = xs, oauth_store = o1, faults = [] \<rparr>)"
    for xs o1 ag1 inp
    by (simp add: mock_api_def faulty_def next_call_def)
  have vals: "did s0 = ''did123''" "lessonId p0 = ''lesson-1''"
    "completedAt p0 = ''2024-01-01T00:00:00Z''" "score p0 = 87" "notes_opt p0 = None"
    by (simp_all add: s0_def p0_def)
  have pw: "pds (w0 []) = [r0]" by (simp add: w0_def)
  show ?thesis
    using ag se th
    by (simp add: wo now vals cr li pw LESSON_COLLECTION_def)
qed

subsection \<open>C6: a failed create\<close>

text \<open>
  Claim C6. With a session held: when the create-record request fails, \<^verbatim>\<open>saveLesson\<close>
  rejects with the very value the request threw, issues no further call and leaves the
  cache as it was; and whenever \<^verbatim>\<open>saveLesson\<close> rejects, for whatever reason, the cache is
  as it was before the call.
\<close>

theorem saveLesson_failure_keeps_cache:
  assumes "agent st = Some ag" and "session st = Some s"
  shows "(\<forall>e w1. createRecord a (world st) ag (createRecord_args a st s p) = (Inl e, w1)
            \<longrightarrow> fst (saveLesson a st p) = Inl e
              \<and> lessons (snd (saveLesson a st p)) = lessons st
              \<and> issued st (snd (saveLesson a st p)) =
                  [Req_createRecord ag (createRecord_args a st s p)])
       \<and> (\<forall>e. fst (saveLesson a st p) = Inl e
            \<longrightarrow> lessons (snd (saveLesson a st p)) = lessons st)"
proof (intro conjI allI impI)
  fix e w1
  assume "createRecord a (world st) ag (createRecord_args a st s p) = (Inl e, w1)"
  with assms show "fst (saveLesson a st p) = Inl e"
    and "lessons (snd (saveLesson a st p)) = lessons st"
    and "issued st (snd (saveLesson a st p)) =
           [Req_createRecord ag (createRecord_args a st s p)]"
    by (simp_all add: handler_defs)
next
  fix e
  assume "fst (saveLesson a st p) = Inl e"
  with assms show "lessons (snd (saveLesson a st p)) = lessons st"
    by (auto simp: handler_defs Let_def split: prod.splits sum.splits)
qed

text \<open>The cache holds \<open>r0\<close>, the create-record request fails with \<open>unavailable\<close>.\<close>

theorem saveLesson_failure_keeps_cache_witness:
  "agent (loaded [False, False, True]) = Some (Agent_session s0)
   \<and> session (loaded [False, False, True]) = Some s0
   \<and> lessons (loaded [False, False, True]) = [r0]
   \<and> fst (createRecord mock_api (world (loaded [False, False, True])) (Agent_session s0)
            (createRecord_args mock_api (loaded [False, False, True]) s0 p0))
       = Inl unavailable
   \<and> fst (saveLesson mock_api (loaded [False, False, True]) p0) = Inl unavailable
   \<and> lessons (snd (saveLesson mock_api (loaded [False, False, True]) p0)) = [r0]"
proof -
  have ag: "agent (loaded [False, False, True]) = Some (Agent_session s0)"
    and se: "session (loaded [False, False, True]) = Some s0"
    by (simp_all add: loaded_session)
  show ?thesis
    using ag se saveLesson_failure_keeps_cache [OF ag se, of mock_api p0]
    by (simp add: mock_defs handler_defs)
qed

subsection \<open>C7: what a delete is addressed to\<close>

text \<open>
  Claim C7, as the code has it. \<^verbatim>\<open>deleteLesson\<close> takes a bare record key: with a session
  held, the first call it issues is a delete-record request through the held agent,
  addressed to the session's DID, the collection namespace and its argument, passed on as
  it is and never parsed. The key is derived from a locator by the caller: the Delete
  button takes the last \<open>/\<close>-segment of the record's locator and hands that to
  \<^verbatim>\<open>deleteLesson\<close>. The outside world the handler leaves is the one that very
  delete-record call leaves, passed through the refresh when the call succeeds.
\<close>

theorem deleteLesson_rkey_verbatim:
  assumes "agent st = Some ag" and "session st = Some s"
  shows "take 1 (issued st (snd (deleteLesson a st rkey))) =
           [Req_deleteRecord ag
              \<lparr> d_repo = did s, d_collection = LESSON_COLLECTION, d_rkey = rkey \<rparr>]
       \<and> (CHR ''/'' \<notin> set key \<longrightarrow>
            onClick_delete a st
                (r \<lparr> uri := scheme @ ''://'' @ owner @ ''/'' @ namespace @ ''/'' @ key \<rparr>)
              = Some (deleteLesson a st key))
       \<and> world (snd (deleteLesson a st rkey)) =
           (case deleteRecord a (world st) ag
                   \<lparr> d_repo = did s, d_collection = LESSON_COLLECTION, d_rkey = rkey \<rparr> of
              (Inl e, w1) \<Rightarrow> w1
            | (Inr u, w1) \<Rightarrow> snd (listRecords a w1 ag (listRecords_args s)))"
proof -
  have "extract_rkey ((scheme @ ''://'' @ owner @ ''/'' @ namespace) @ ''/'' @ key) = Some key"
    if "CHR ''/'' \<notin> set key"
    using that by (rule extract_rkey_final)
  then have "CHR ''/'' \<notin> set key \<longrightarrow>
      onClick_delete a st
          (r \<lparr> uri := scheme @ ''://'' @ owner @ ''/'' @ namespace @ ''/'' @ key \<rparr>)
        = Some (deleteLesson a st key)"
    by (simp add: onClick_delete_def)
  moreover have "take 1 (issued st (snd (deleteLesson a st rkey))) =
      [Req_deleteRecord ag \<lparr> d_repo = did s, d_collection = LESSON_COLLECTION, d_rkey = rkey \<rparr>]"
    using assms by (simp add: handler_defs Let_def split: prod.splits sum.splits)
  moreover have "world (snd (deleteLesson a st rkey)) =
      (case deleteRecord a (world st) ag (deleteRecord_args s rkey) of
         (Inl e, w1) \<Rightarrow> w1
       | (Inr u, w1) \<Rightarrow> snd (listRecords a w1 ag (listRecords_args s)))"
    using assms by (simp add: handler_defs Let_def split: prod.splits sum.splits)
  ultimately show ?thesis by simp
qed

theorem deleteLesson_rkey_verbatim_witness:
  "agent (loaded []) = Some (Agent_session s0) \<and> session (loaded []) = Some s0
   \<and> CHR ''/'' \<notin> set ''abc789''
   \<and> take 1 (issued (loaded []) (snd (deleteLesson mock_api (loaded []) ''abc789''))) =
       [Req_deleteRecord (Agent_session s0)
          \<lparr> d_repo = ''did123'', d_collection = ''app.piano.user.lesson'',
            d_rkey = ''abc789'' \<rparr>]
   \<and> onClick_delete mock_api (loaded []) r0
       = Some (deleteLesson mock_api (loaded []) ''abc789'')
   \<and> pds (world (loaded [])) = [r0]
   \<and> pds (world (snd (deleteLesson mock_api (loaded []) ''abc789''))) = []"
proof -
  have ag: "agent (loaded []) = Some (Agent_session s0)"
    and se: "session (loaded []) = Some s0"
    and wo: "world (loaded []) = w0 []"
    by (simp_all add: mock_defs fetchLessons_def)
  have r: "r0 \<lparr> uri := ''at'' @ ''://'' @ ''did123'' @ ''/'' @ ''app.piano.user.lesson''
                         @ ''/'' @ ''abc789'' \<rparr> = r0"
    by (simp add: r0_def)
  have de: "deleteRecord mock_api (w0 []) ag1
              \<lparr> d_repo = ''did123'', d_collection = ''app.piano.user.lesson'',
                d_rkey = ''abc789'' \<rparr>
            = (Inr (), \<lparr> pds = [], oauth_store = Some s0, faults = [] \<rparr>)" for ag1
    by (simp add: mock_api_def w0_def r0_def faulty_def next_call_def locator_def)
  have li: "listRecords mock_api \<lparr> pds = xs, oauth_store = o1, faults = [] \<rparr> ag1 inp
            = (Inr (take (l_limit inp) xs), \<lparr> pds = xs, oauth_store = o1, faults = [] \<rparr>)"
    for xs o1 ag1 inp
    by (simp add: mock_api_def faulty_def next_call_def)
  have pw: "pds (w0 []) = [r0]" by (simp add: w0_def)
  have ds: "did s0 = ''did123''" by (simp add: s0_def)
  show ?thesis
    using ag se r
      deleteLesson_rkey_verbatim [where a = mock_api and rkey = "''abc789''"
        and key = "''abc789''" and r = r0 and scheme = "''at''" and owner = "''did123''"
        and namespace = "''app.piano.user.lesson''", OF ag se]
    by (simp add: wo ds de li pw LESSON_COLLECTION_def)
qed

text \<open>
  The claim as stated fails on a full address: given the locator of \<open>r0\<close>,
  \<^verbatim>\<open>deleteLesson\<close> sends the whole locator as the record key, not \<open>abc789\<close>, and \<open>r0\<close>
  stays in the repository.
\<close>

theorem deleteLesson_full_address_not_parsed:
  "take 1 (issued (loaded [])
       (snd (deleteLesson mock_api (loaded []) ''at://did123/app.piano.user.lesson/abc789'')))
     = [Req_deleteRecord (Agent_session s0)
          \<lparr> d_repo = ''did123'', d_collection = ''app.piano.user.lesson'',
            d_rkey = ''at://did123/app.piano.user.lesson/abc789'' \<rparr>]
   \<and> extract_rkey ''at://did123/app.piano.user.lesson/abc789'' = Some ''abc789''
   \<and> ''at://did123/app.piano.user.lesson/abc789'' \<noteq> ''abc789''
   \<and> pds (world (snd (deleteLesson mock_api (loaded [])
                        ''at://did123/app.piano.user.lesson/abc789''))) = [r0]"
proof -
  have "extract_rkey (''at://did123/app.piano.user.lesson'' @ ''/'' @ ''abc789'') = Some ''abc789''"
    by (rule extract_rkey_final) simp
  then show ?thesis by (simp add: mock_defs handler_defs)
qed

subsection \<open>C8: listing\<close>

text \<open>
  Claim C8. With a session held, \<^verbatim>\<open>fetchLessons\<close> issues exactly one call, a list-records
  request through the held agent for the session's DID and the collection namespace with
  limit 100; when it succeeds, the promise resolves with the returned sequence and the
  cache becomes that sequence, in the order returned, whatever it held before.
\<close>

theorem fetchLessons_request_and_cache:
  assumes "agent st = Some ag" and "session st = Some s"
  shows "issued st (snd (fetchLessons a st)) =
           [Req_listRecords ag
              \<lparr> l_repo = did s, l_collection = LESSON_COLLECTION, l_limit = 100 \<rparr>]
       \<and> (\<forall>recs w1.
            listRecords a (world st) ag
                \<lparr> l_repo = did s, l_collection = LESSON_COLLECTION, l_limit = 100 \<rparr>
              = (Inr recs, w1)
            \<longrightarrow> fst (fetchLessons a st) = Inr (Some recs)
              \<and> lessons (snd (fetchLessons a st)) = recs)"
  using assms by (simp add: handler_defs Let_def split: prod.splits sum.splits)

text \<open>
  The cache already holds \<open>r0\<close> and the repository holds \<open>r0\<close>: after another listing the
  cache holds \<open>r0\<close> once.
\<close>

theorem fetchLessons_request_and_cache_witness:
  "agent (loaded []) = Some (Agent_session s0) \<and> session (loaded []) = Some s0
   \<and> lessons (loaded []) = [r0]
   \<and> issued (loaded []) (snd (fetchLessons mock_api (loaded []))) =
       [Req_listRecords (Agent_session s0)
          \<lparr> l_repo = ''did123'', l_collection = ''app.piano.user.lesson'', l_limit = 100 \<rparr>]
   \<and> fst (fetchLessons mock_api (loaded [])) = Inr (Some [r0])
   \<and> lessons (snd (fetchLessons mock_api (loaded []))) = [r0]"
proof -
  have ag: "agent (loaded []) = Some (Agent_session s0)"
    and se: "session (loaded []) = Some s0"
    and le: "lessons (loaded []) = [r0]"
    and wo: "world (loaded []) = w0 []"
    by (simp_all add: mock_defs fetchLessons_def)
  have li: "listRecords mock_api (w0 []) ag
              \<lparr> l_repo = did s0, l_collection = LESSON_COLLECTION, l_limit = 100 \<rparr>
            = (Inr [r0], w0 [])" for ag
    by (simp add: mock_api_def w0_def faulty_def next_call_def)
  note th = fetchLessons_request_and_cache [OF ag se, of mock_api]
  from th have req: "issued (loaded []) (snd (fetchLessons mock_api (loaded []))) =
      [Req_listRecords (Agent_session s0)
         \<lparr> l_repo = did s0, l_collection = LESSON_COLLECTION, l_limit = 100 \<rparr>]"
    by simp
  from th have res: "fst (fetchLessons mock_api (loaded [])) = Inr (Some [r0])
      \<and> lessons (snd (fetchLessons mock_api (loaded []))) = [r0]"
    by (simp add: wo li)
  show ?thesis
    using ag se le req res by (simp add: s0_def LESSON_COLLECTION_def)
qed

subsection \<open>C9: logout\<close>

text \<open>
  Claim C9 asks that after a logout a resume finds no session. \<^verbatim>\<open>handleLogout\<close> empties
  the session cell and removes the \<^verbatim>\<open>localStorage\<close> entry \<open>bsky-session\<close>, an entry that
  nothing in the component writes, and it makes no call to the OAuth client. Here the
  user signs in through a client that keeps the session it issued, then logs out, and
  the component is mounted again on what the logout left behind: the session cell was
  emptied and the entry is absent, yet \<^verbatim>\<open>client.init()\<close> returns the session and the
  component is signed in again.
\<close>

theorem logout_leaves_session_resumable:
  "session signed_in = Some \<lparr> did = ''did:plc:xyz'', credentials = ''whoisryosuke.bsky.social'' \<rparr>
   \<and> session (handleLogout signed_in) = None
   \<and> localStorage (handleLogout signed_in) ''bsky-session'' = None
   \<and> fst (client_init mock_api (world (handleLogout signed_in))
                              (localStorage (handleLogout signed_in)))
       = Inr (Some \<lparr> did = ''did:plc:xyz'', credentials = ''whoisryosuke.bsky.social'' \<rparr>)
   \<and> session (BlueskyApp_mount mock_api (world (handleLogout signed_in))
                              (localStorage (handleLogout signed_in)))
       = Some \<lparr> did = ''did:plc:xyz'', credentials = ''whoisryosuke.bsky.social'' \<rparr>"
  by (simp add: signed_in_def mock_defs handleLogout_def handleLogin_def)

subsection \<open>C10: resume on load\<close>

text \<open>
  Claim C10. When \<^verbatim>\<open>client.init()\<close> returns a session on mount, the session and the agent
  built from it are stored, the only call issued is that \<^verbatim>\<open>init\<close> (no profile request), and
  the profile stays unset: the effect tests the agent of the first render, which is
  \<^verbatim>\<open>null\<close>.
\<close>

theorem resume_on_load_skips_profile:
  assumes "client_init a w ls = (Inr (Some s), w1)"
  shows "BlueskyApp_mount a w ls =
           (initial_state w ls) \<lparr> world := w1, net_log := [Req_init],
                                  agent := Some (Agent_session s), session := Some s \<rparr>
       \<and> session (BlueskyApp_mount a w ls) = Some s
       \<and> agent (BlueskyApp_mount a w ls) = Some (Agent_session s)
       \<and> profile (BlueskyApp_mount a w ls) = None
       \<and> net_log (BlueskyApp_mount a w ls) = [Req_init]"
  using assms
  by (simp add: BlueskyApp_mount_def useEffect_mount_def initAuth_def initial_state_def)

theorem resume_on_load_skips_profile_witness:
  "client_init mock_api (w0 []) Map.empty = (Inr (Some s0), w0 [])
   \<and> session (BlueskyApp_mount mock_api (w0 []) Map.empty) = Some s0
   \<and> agent (BlueskyApp_mount mock_api (w0 []) Map.empty) = Some (Agent_session s0)
   \<and> profile (BlueskyApp_mount mock_api (w0 []) Map.empty) = None
   \<and> net_log (BlueskyApp_mount mock_api (w0 []) Map.empty) = [Req_init]"
proof -
  have init: "client_init mock_api (w0 []) Map.empty = (Inr (Some s0), w0 [])"
    by (simp add: mock_api_def w0_def faulty_def next_call_def)
  show ?thesis
    using init resume_on_load_skips_profile [OF init]
    by (simp add: initial_state_def)
qed

end
